theory Spec2Isabelle
  imports Main "HOL-Library.AList"
begin

section \<open>Values, exceptions and effects\<close>

text \<open>
  The program is a command-line shell written against an application framework. The
  Python values that occur in it are \<open>None\<close>, booleans and strings.
\<close>

datatype pyval = PNone | PBool bool | PStr string

text \<open>
  The exceptions the program names or can meet. \<open>NoSectionError\<close>, \<open>NoOptionError\<close>
  and \<open>ConfigparserError\<close> (any other subclass, with its message) are the
  \<open>configparser.Error\<close> family; \<open>SystemExit\<close> carries the exit status;
  \<open>CaughtSignal\<close> carries the signal number; \<open>ArgumentError\<close> is the parser
  refusing an argument; \<open>OtherException\<close> stands for every other exception type.
\<close>

datatype exc =
    NoSectionError string
  | NoOptionError string string
  | ConfigparserError string
  | KeyError string
  | KeyboardInterrupt
  | SystemExit int
  | CaughtSignal int
  | ArgumentError string
  | OtherException string

text \<open>\<open>isinstance(e, configparser.Error)\<close>.\<close>

fun is_configparser_Error :: "exc \<Rightarrow> bool" where
  "is_configparser_Error (NoSectionError s) = True"
| "is_configparser_Error (NoOptionError k s) = True"
| "is_configparser_Error (ConfigparserError m) = True"
| "is_configparser_Error e = False"

text \<open>
  \<open>repr\<close> of a string, as \<open>%r\<close> formats it. The string stands between single
  quotes, or between double quotes when it holds a single quote and no double quote. A
  backslash and the chosen quote are written after a backslash; tab, newline and
  carriage return are written \<open>\t\<close>, \<open>\n\<close> and \<open>\r\<close>; any other control
  character is written \<open>\x\<close> and two hexadecimal digits. A string is its bytes in
  UTF-8, and a character beyond ASCII is taken to be printable.
\<close>

definition quote_of :: "string \<Rightarrow> char" where
  "quote_of s = (if CHR 0x27 \<in> set s \<and> CHR 0x22 \<notin> set s then CHR 0x22 else CHR 0x27)"

definition hex_digit :: "nat \<Rightarrow> char" where
  "hex_digit n = ''0123456789abcdef'' ! (n mod 16)"

definition repr_char :: "char \<Rightarrow> char \<Rightarrow> string" where
  "repr_char q c =
     (if c = q \<or> c = CHR 0x5C then [CHR 0x5C, c]
      else if c = CHR 0x09 then [CHR 0x5C, CHR ''t'']
      else if c = CHR 0x0A then [CHR 0x5C, CHR ''n'']
      else if c = CHR 0x0D then [CHR 0x5C, CHR ''r'']
      else if (of_char c :: nat) < 32 \<or> (of_char c :: nat) = 127 then
        [CHR 0x5C, CHR ''x'', hex_digit (of_char c div 16), hex_digit (of_char c)]
      else [c])"

definition repr :: "string \<Rightarrow> string" where
  "repr s = [quote_of s] @ concat (map (repr_char (quote_of s)) s) @ [quote_of s]"

text \<open>
  \<open>str(e)\<close>. The two configparser messages are the ones of Python's configparser
  module: \<^verbatim>\<open>'No section: %r' % (section,)\<close> and
  \<^verbatim>\<open>"No option %r in section: %r" % (option, section)\<close>.
\<close>

fun exc_str :: "exc \<Rightarrow> string" where
  "exc_str (NoSectionError s) = ''No section: '' @ repr s"
| "exc_str (NoOptionError k s) = ''No option '' @ repr k @ '' in section: '' @ repr s"
| "exc_str (ConfigparserError m) = m"
| "exc_str (KeyError k) = repr k"
| "exc_str KeyboardInterrupt = []"
| "exc_str (SystemExit n) = []"
| "exc_str (CaughtSignal n) = []"
| "exc_str (ArgumentError m) = m"
| "exc_str (OtherException m) = m"

text \<open>
  What a run does to the outside: log lines, with their level, and text printed to the
  terminal; and what the help texts announce: a request sent to the controller, a file
  read and a file written (the path and the content).
\<close>

datatype level = DEBUG | INFO | WARNING | ERROR | FATAL

datatype event =
    Log level string
  | Print string
  | ControllerRequest string
  | FileRead string
  | FileWrite string string

text \<open>
  A call produces the events it emitted, in order, and then either returns a value
  (\<open>Inr\<close>) or raises (\<open>Inl\<close>).
\<close>

type_synonym 'a result = "event list \<times> (exc + 'a)"

text \<open>Sequencing of two statements: the second runs only if the first returned.\<close>

definition then_do :: "'a result \<Rightarrow> ('a \<Rightarrow> 'b result) \<Rightarrow> 'b result" where
  "then_do r f =
     (case r of
        (ev, Inl x) \<Rightarrow> (ev, Inl x)
      | (ev, Inr a) \<Rightarrow> (case f a of (ev', r') \<Rightarrow> (ev @ ev', r')))"

section \<open>The configuration handler\<close>

text \<open>
  \<^verbatim>\<open>
  class RainMachineConfigHandler(ConfigParserConfigHandler):
      def get(self, *args, **kw):
          try:
              return super(RainMachineConfigHandler, self).get(*args, **kw)
          except configparser.Error as e:
              self.app.log.fatal('Missing configuration setting: %s' % e)
              self.app.close(1)
  \<close>
  The inherited reader \<open>super_get\<close> and the application's \<open>close\<close> belong to the
  framework and are parameters. When \<open>close\<close> returns, the method falls off its end
  and returns \<open>None\<close>.
\<close>

definition get :: "('a \<Rightarrow> pyval result) \<Rightarrow> (int \<Rightarrow> unit result) \<Rightarrow> 'a \<Rightarrow> pyval result" where
  "get super_get close args =
     (case super_get args of
        (ev, Inr v) \<Rightarrow> (ev, Inr v)
      | (ev, Inl e) \<Rightarrow>
          if is_configparser_Error e
          then then_do (ev @ [Log FATAL (''Missing configuration setting: '' @ exc_str e)], Inr ())
                 (\<lambda>_. then_do (close 1) (\<lambda>_. ([], Inr PNone)))
          else (ev, Inl e))"

section \<open>The application\<close>

text \<open>
  \<^verbatim>\<open>
  def setup(self):
      # always run core setup first
      super(RainMachineApp, self).setup()
      self.log.debug('running setup()')
  \<close>
\<close>

definition RainMachineApp_setup :: "unit result \<Rightarrow> unit result" where
  "RainMachineApp_setup super_setup =
     then_do super_setup (\<lambda>_. ([Log DEBUG ''running setup()''], Inr ()))"

text \<open>
  What the framework's calls do in one invocation of the program: creating the
  application object, entering and leaving its context (\<open>__enter__\<close>, and
  \<open>__exit__\<close> with the pending exception, whose true result suppresses it),
  \<open>run\<close> and \<open>run_forever\<close>.
\<close>

record framework =
  app_init :: "unit result"
  app_enter :: "unit result"
  app_run :: "unit result"
  app_run_forever :: "unit result"
  app_exit :: "exc option \<Rightarrow> bool result"

text \<open>\<^verbatim>\<open>except (KeyboardInterrupt, SystemExit, CaughtSignal)\<close>\<close>

fun caught :: "exc \<Rightarrow> bool" where
  "caught KeyboardInterrupt = True"
| "caught (SystemExit n) = True"
| "caught (CaughtSignal s) = True"
| "caught e = False"

text \<open>
  \<^verbatim>\<open>
  try:
      app.run_forever()
  except (KeyboardInterrupt, SystemExit, CaughtSignal):
      pass
  \<close>
\<close>

definition idle_wait :: "unit result \<Rightarrow> unit result" where
  "idle_wait rf =
     (case rf of
        (ev, Inl x) \<Rightarrow> if caught x then (ev, Inr ()) else (ev, Inl x)
      | (ev, Inr u) \<Rightarrow> (ev, Inr u))"

text \<open>The body of the \<open>with\<close> statement: \<open>app.run()\<close>, then the guarded wait.\<close>

definition with_body :: "framework \<Rightarrow> unit result" where
  "with_body fw = then_do (app_run fw) (\<lambda>_. idle_wait (app_run_forever fw))"

text \<open>
  \<^verbatim>\<open>
  with RainMachineApp() as app:
      app.run()
      try: ...
  \<close>
  Python's \<open>with\<close>: the object is created and entered; when the body returns,
  \<open>__exit__\<close> is called without an exception; when the body raises, \<open>__exit__\<close>
  is called with the exception, which is raised again unless \<open>__exit__\<close> returns a
  true value or raises itself.
\<close>

definition main_block :: "framework \<Rightarrow> unit result" where
  "main_block fw =
     then_do (app_init fw) (\<lambda>_.
     then_do (app_enter fw) (\<lambda>_.
       case with_body fw of
         (ev, Inr u) \<Rightarrow> then_do (ev, Inr u) (\<lambda>_. then_do (app_exit fw None) (\<lambda>_. ([], Inr ())))
       | (ev, Inl x) \<Rightarrow>
           (case app_exit fw (Some x) of
              (ev', Inl y) \<Rightarrow> (ev @ ev', Inl y)
            | (ev', Inr b) \<Rightarrow> (ev @ ev', if b then Inr () else Inl x))))"

text \<open>
  How the process ends: the interpreter exits with status 0 when the module returns,
  with the status of an uncaught \<open>SystemExit\<close>, and with a traceback on any other
  uncaught exception.
\<close>

datatype process_end = Exit int | Traceback exc

definition exit_status :: "unit result \<Rightarrow> process_end" where
  "exit_status r =
     (case snd r of
        Inr u \<Rightarrow> Exit 0
      | Inl (SystemExit n) \<Rightarrow> Exit n
      | Inl e \<Rightarrow> Traceback e)"

section \<open>Constants of the module\<close>

text \<open>
  \<^verbatim>\<open>
  BANNER = """
  rainmachine v%s
  %s
  """ % (__version__, __copyright__)
  \<close>
  \<open>__version__\<close> and \<open>__copyright__\<close> come from the package's \<open>__init__\<close>
  module and are parameters.
\<close>

definition BANNER :: "string \<Rightarrow> string \<Rightarrow> string" where
  "BANNER version copyright =
     [CHR 0x0A] @ ''rainmachine v'' @ version @ [CHR 0x0A] @ copyright @ [CHR 0x0A]"

definition HELP_BACKUP :: string where
  "HELP_BACKUP =
     [CHR 0x0A] @ ''Backup all settings of specified RainMachine controller.'' @ [CHR 0x0A]"

definition HELP_RESTORE :: string where
  "HELP_RESTORE =
     [CHR 0x0A] @ ''Restore all settings of specified RainMachine controller.'' @ [CHR 0x0A]"

definition HELP_HOST :: string where
  "HELP_HOST = [CHR 0x0A] @ ''IP address or hostname of rainmachine controller.'' @ [CHR 0x0A]"

definition HELP_USER :: string where
  "HELP_USER = [CHR 0x0A] @ ''Username of rainmachine controller.'' @ [CHR 0x0A]"

definition HELP_PASS :: string where
  "HELP_PASS = [CHR 0x0A] @ ''Password of rainmachine controller.'' @ [CHR 0x0A]"

definition HELP_FILE :: string where
  "HELP_FILE =
     [CHR 0x0A] @ ''Name of backupfile. Default is name of the rainmachine controller.''
       @ [CHR 0x0A]"

section \<open>Configuration defaults\<close>

text \<open>
  A dictionary is an association list in insertion order; \<open>AList.update\<close> is the
  assignment \<open>d[k] = v\<close>. The configuration is a dictionary of sections, each a
  dictionary of keys.
\<close>

type_synonym 'v dict = "(string \<times> 'v) list"

type_synonym config = "pyval dict dict"

text \<open>
  Modelled from the spec: the framework helper \<open>init_defaults\<close> is not part of the
  sources. It gives the configuration defaults their sections: one empty dictionary for
  each section name.
\<close>

definition init_defaults :: "string list \<Rightarrow> config" where
  "init_defaults sections = fold (\<lambda>s d. AList.update s [] d) sections []"

text \<open>
  \<^verbatim>\<open>
  defaults = init_defaults('rainmachine', 'rainmachine')
  defaults['rainmachine']['tbd'] = False
  \<close>
  Reading \<open>defaults['rainmachine']\<close> raises \<open>KeyError\<close> when the section is not
  there.
\<close>

definition defaults :: "exc + config" where
  "defaults =
     (let d = init_defaults [''rainmachine'', ''rainmachine''] in
      case map_of d ''rainmachine'' of
        None \<Rightarrow> Inl (KeyError ''rainmachine'')
      | Some opts \<Rightarrow>
          Inr (AList.update ''rainmachine'' (AList.update ''tbd'' (PBool False) opts) d))"

section \<open>Command line options\<close>

text \<open>
  The keyword arguments of one option declaration. A key the declaration does not give
  is \<open>None\<close>; no declaration of the module gives \<open>default\<close>.
\<close>

record argdict =
  action :: string
  help_text :: "string option"
  dest :: "string option"
  version :: "string option"
  default_value :: "pyval option"

text \<open>
  \<^verbatim>\<open>
  class RainMachineBaseController(CementBaseController):
      class Meta:
          label = 'base'
          description = DESCRIPTION
          epilog = EPILOG
          arguments = [
              (['--host', '--rainmachine'],
               dict(action='store', help=HELP_HOST, dest='host')),
              (['-u', '--user'],
               dict(action='store', help=HELP_USER, dest='user')),
              (['-p', '--password'],
               dict(action='store', help=HELP_PASS, dest='pass')),
              (['-b', '--backup'],
               dict(action='store_true', help=HELP_BACKUP, dest='backup')),
              (['-r', '--restore'],
               dict(action='store_true', help=HELP_RESTORE, dest='restore')),
              (['-f', '--file'],
               dict(action='store', help=HELP_FILE, dest='file')),
              (['-v', '--version'], dict(action='version', version=BANNER)),
              ]
  \<close>
  The description and the epilog are texts of the help screen and are left out.
\<close>

definition arguments :: "string \<Rightarrow> string \<Rightarrow> (string list \<times> argdict) list" where
  "arguments ver copy =
     [([''--host'', ''--rainmachine''],
       \<lparr>action = ''store'', help_text = Some HELP_HOST, dest = Some ''host'',
        version = None, default_value = None\<rparr>),
      ([''-u'', ''--user''],
       \<lparr>action = ''store'', help_text = Some HELP_USER, dest = Some ''user'',
        version = None, default_value = None\<rparr>),
      ([''-p'', ''--password''],
       \<lparr>action = ''store'', help_text = Some HELP_PASS, dest = Some ''pass'',
        version = None, default_value = None\<rparr>),
      ([''-b'', ''--backup''],
       \<lparr>action = ''store_true'', help_text = Some HELP_BACKUP, dest = Some ''backup'',
        version = None, default_value = None\<rparr>),
      ([''-r'', ''--restore''],
       \<lparr>action = ''store_true'', help_text = Some HELP_RESTORE, dest = Some ''restore'',
        version = None, default_value = None\<rparr>),
      ([''-f'', ''--file''],
       \<lparr>action = ''store'', help_text = Some HELP_FILE, dest = Some ''file'',
        version = None, default_value = None\<rparr>),
      ([''-v'', ''--version''],
       \<lparr>action = ''version'', help_text = None, dest = None,
        version = Some (BANNER ver copy), default_value = None\<rparr>)]"

text \<open>
  \<^verbatim>\<open>
  class RainMachineApp(CementApp):
      class Meta:
          label = 'rainmachine'
          config_defaults = defaults
          base_controller = 'base'
          config_handler = 'config_handler'
          handlers = [RainMachineBaseController, RainMachineConfigHandler]
          extensions = ['colorlog']
          arguments_override_config = True
          log_handler = ColorLogHandler(colors=COLORS)
  \<close>
  The handlers are the two classes of the module, written by name. The log handler only
  colours the log lines and is left out.
\<close>

record app_meta =
  label :: string
  config_defaults :: "exc + config"
  base_controller :: string
  config_handler :: string
  handlers :: "string list"
  extensions :: "string list"
  arguments_override_config :: bool

definition RainMachineApp_Meta :: app_meta where
  "RainMachineApp_Meta =
     \<lparr>label = ''rainmachine'',
      config_defaults = defaults,
      base_controller = ''base'',
      config_handler = ''config_handler'',
      handlers = [''RainMachineBaseController'', ''RainMachineConfigHandler''],
      extensions = [''colorlog''],
      arguments_override_config = True\<rparr>"

section \<open>The framework's argument parser and configuration reader\<close>

text \<open>The parsed arguments: a value for each \<open>dest\<close>.\<close>

type_synonym namespace = "pyval dict"

text \<open>
  Modelled from the spec: the argument parser is the framework's and is not part of the
  sources. The spec has it parse the process arguments against the fixed flag set of the
  table, string options taking the argument that follows them, boolean options taking
  none, the version option printing the banner and exiting. An argument is looked up
  among the option strings of the table as it is written.
\<close>

definition find_option ::
    "(string list \<times> argdict) list \<Rightarrow> string \<Rightarrow> (string list \<times> argdict) option" where
  "find_option tbl t = find (\<lambda>(flags, d). t \<in> set flags) tbl"

text \<open>
  Modelled from the spec: before any argument is read every \<open>dest\<close> holds its
  default: the declared one, else \<open>False\<close> for a boolean option and \<open>None\<close> for a
  string option.
\<close>

definition default_of :: "argdict \<Rightarrow> pyval" where
  "default_of d =
     (case default_value d of
        Some v \<Rightarrow> v
      | None \<Rightarrow> if action d = ''store_true'' then PBool False else PNone)"

text \<open>
  Modelled from the spec: the parser's starting values are the framework's and are not
  part of the sources. Each declaration of the table that names a \<open>dest\<close> puts its
  default there; the version option names none.
\<close>

definition initial_namespace :: "(string list \<times> argdict) list \<Rightarrow> namespace" where
  "initial_namespace tbl =
     fold (\<lambda>(flags, d) ns. case dest d of None \<Rightarrow> ns | Some k \<Rightarrow> AList.update k (default_of d) ns)
       tbl []"

text \<open>
  Modelled from the spec: the arguments are taken from left to right. An argument that
  is no option string of the table is refused; \<open>store\<close> takes the next argument, which
  must be there and must not begin with a dash, as the value of its \<open>dest\<close>;
  \<open>store_true\<close> sets its \<open>dest\<close> to \<open>True\<close>; \<open>version\<close> prints its text and
  exits with status 0.
\<close>

fun parse_args :: "(string list \<times> argdict) list \<Rightarrow> namespace \<Rightarrow> string list \<Rightarrow> namespace result" where
  "parse_args tbl ns [] = ([], Inr ns)"
| "parse_args tbl ns (t # ts) =
     (case find_option tbl t of
        None \<Rightarrow> ([], Inl (ArgumentError (''unrecognized arguments: '' @ t)))
      | Some (flags, d) \<Rightarrow>
          if action d = ''store'' then
            (case (dest d, ts) of
               (Some k, v # ts') \<Rightarrow>
                 if take 1 v = ''-'' then ([], Inl (ArgumentError ''expected one argument''))
                 else parse_args tbl (AList.update k (PStr v) ns) ts'
             | _ \<Rightarrow> ([], Inl (ArgumentError ''expected one argument'')))
          else if action d = ''store_true'' then
            (case dest d of
               Some k \<Rightarrow> parse_args tbl (AList.update k (PBool True) ns) ts
             | None \<Rightarrow> ([], Inl (OtherException ''dest'')))
          else if action d = ''version'' then
            (case version d of
               Some b \<Rightarrow> ([Print b], Inl (SystemExit 0))
             | None \<Rightarrow> ([], Inl (OtherException ''version'')))
          else ([], Inl (OtherException ''unknown action'')))"

text \<open>
  Modelled from the spec: the configuration reader the handler inherits is not part of
  the sources. It reads the named key from the named section of the configuration
  mapping; an absent section or key is a configparser error.
\<close>

definition ConfigParserConfigHandler_get :: "config \<Rightarrow> string \<times> string \<Rightarrow> pyval result" where
  "ConfigParserConfigHandler_get cfg sk =
     (case map_of cfg (fst sk) of
        None \<Rightarrow> ([], Inl (NoSectionError (fst sk)))
      | Some opts \<Rightarrow>
          (case map_of opts (snd sk) of
             None \<Rightarrow> ([], Inl (NoOptionError (snd sk) (fst sk)))
           | Some v \<Rightarrow> ([], Inr v)))"

text \<open>
  Modelled from the spec: the merge of the command line into the configuration is the
  framework's and is not part of the sources. A configuration key for which a
  command-line value was supplied (a parsed value other than \<open>None\<close> under the same
  name) takes that value.
\<close>

definition override_key :: "namespace \<Rightarrow> string \<times> pyval \<Rightarrow> string \<times> pyval" where
  "override_key ns kv =
     (case map_of ns (fst kv) of
        None \<Rightarrow> kv
      | Some w \<Rightarrow> if w = PNone then kv else (fst kv, w))"

text \<open>
  Modelled from the spec: the merge goes through every key of every section of the
  configuration; sections and keys stay as they are.
\<close>

definition override_config :: "config \<Rightarrow> namespace \<Rightarrow> config" where
  "override_config cfg ns = map (\<lambda>(s, opts). (s, map (override_key ns) opts)) cfg"

text \<open>
  Modelled from the spec: what the framework's \<open>run\<close> does with the process
  arguments. It parses them against the controller's table and, when the application's
  \<open>arguments_override_config\<close> is set, merges the parsed values into the
  configuration. The controller of the module exposes no command, so nothing follows.
\<close>

definition run_app ::
    "app_meta \<Rightarrow> (string list \<times> argdict) list \<Rightarrow> config \<Rightarrow> string list \<Rightarrow> config result" where
  "run_app meta tbl cfg argv =
     then_do (parse_args tbl (initial_namespace tbl) argv)
       (\<lambda>ns. ([], Inr (if arguments_override_config meta then override_config cfg ns else cfg)))"

section \<open>Example environments\<close>

text \<open>
  Concrete framework behaviours, used to evaluate the definitions: a read that finds no
  \<open>host\<close> key in section \<open>rainmachine\<close>, a read that raises another exception, a
  \<open>close\<close> that returns, a \<open>close\<close> that exits with the status it is given, and
  a context exit that returns false.
\<close>

definition missing_host_read :: "unit \<Rightarrow> pyval result" where
  "missing_host_read u = ([], Inl (NoOptionError ''host'' ''rainmachine''))"

definition failing_read :: "unit \<Rightarrow> pyval result" where
  "failing_read u = ([], Inl (OtherException ''TypeError''))"

definition returning_close :: "int \<Rightarrow> unit result" where
  "returning_close code = ([], Inr ())"

definition exiting_close :: "int \<Rightarrow> unit result" where
  "exiting_close code = ([], Inl (SystemExit code))"

definition plain_exit :: "exc option \<Rightarrow> bool result" where
  "plain_exit pending = ([], Inr False)"

definition done_unit :: "pyval \<Rightarrow> unit result" where
  "done_unit v = ([], Inr ())"


text \<open>A run whose idle wait is ended by a keyboard interrupt.\<close>

definition interrupted_run :: framework where
  "interrupted_run =
     \<lparr>app_init = ([], Inr ()),
      app_enter = RainMachineApp_setup ([], Inr ()),
      app_run = ([], Inr ()),
      app_run_forever = ([], Inl KeyboardInterrupt),
      app_exit = plain_exit\<rparr>"

text \<open>
  A run that resolves the missing key in \<open>app.run()\<close>, with a \<open>close\<close> that
  returns, and is later interrupted from the keyboard.
\<close>

definition missing_key_close_returns :: framework where
  "missing_key_close_returns =
     \<lparr>app_init = ([], Inr ()),
      app_enter = RainMachineApp_setup ([], Inr ()),
      app_run = then_do (get missing_host_read returning_close ()) done_unit,
      app_run_forever = ([], Inl KeyboardInterrupt),
      app_exit = plain_exit\<rparr>"

text \<open>A run in which \<open>SystemExit(1)\<close> is raised during the idle wait.\<close>

definition exit_while_idle :: framework where
  "exit_while_idle =
     \<lparr>app_init = ([], Inr ()),
      app_enter = RainMachineApp_setup ([], Inr ()),
      app_run = ([], Inr ()),
      app_run_forever = ([], Inl (SystemExit 1)),
      app_exit = plain_exit\<rparr>"

text \<open>A run in which \<open>SystemExit(1)\<close> is raised in \<open>app.run()\<close>.\<close>

definition exit_at_run :: framework where
  "exit_at_run =
     \<lparr>app_init = ([], Inr ()),
      app_enter = RainMachineApp_setup ([], Inr ()),
      app_run = ([], Inl (SystemExit 1)),
      app_run_forever = ([], Inl KeyboardInterrupt),
      app_exit = plain_exit\<rparr>"

text \<open>A configuration file that gives \<open>host\<close> and \<open>user\<close>.\<close>

definition example_config :: config where
  "example_config =
     [(''rainmachine'',
       [(''tbd'', PBool False), (''host'', PStr ''192.168.1.20''), (''user'', PStr ''admin'')])]"

text \<open>A configuration file that has a key named \<open>backup\<close>.\<close>

definition config_with_backup_key :: config where
  "config_with_backup_key =
     [(''rainmachine'', [(''tbd'', PBool False), (''backup'', PStr ''no'')])]"



section \<open>Lemmas about the effect type and the handler\<close>

lemma then_do_Inl: "then_do (ev, Inl x) f = (ev, Inl x)"
  by (simp add: then_do_def)

lemma then_do_Inr: "then_do (ev, Inr a) f = (ev @ fst (f a), snd (f a))"
  by (simp add: then_do_def split: prod.splits)

lemma get_returns:
  "super_get args = (ev, Inr v) \<Longrightarrow> get super_get close args = (ev, Inr v)"
  by (simp add: get_def)

lemma get_propagates:
  "super_get args = (ev, Inl e) \<Longrightarrow> \<not> is_configparser_Error e \<Longrightarrow>
   get super_get close args = (ev, Inl e)"
  by (simp add: get_def)

lemma get_fatal:
  "super_get args = (ev, Inl e) \<Longrightarrow> is_configparser_Error e \<Longrightarrow> close 1 = (ev', r) \<Longrightarrow>
   get super_get close args =
     (ev @ [Log FATAL (''Missing configuration setting: '' @ exc_str e)] @ ev',
      case r of Inl x \<Rightarrow> Inl x | Inr u \<Rightarrow> Inr PNone)"
  by (cases r) (simp_all add: get_def then_do_def)

lemma is_configparser_Error_iff:
  "is_configparser_Error e \<longleftrightarrow>
     (\<exists>s. e = NoSectionError s) \<or> (\<exists>k s. e = NoOptionError k s) \<or> (\<exists>m. e = ConfigparserError m)"
  by (cases e) simp_all

lemma caught_iff:
  "caught x \<longleftrightarrow> x = KeyboardInterrupt \<or> (\<exists>n. x = SystemExit n) \<or> (\<exists>s. x = CaughtSignal s)"
  by (cases x) simp_all

section \<open>Lemmas about the main block\<close>

lemma main_block_wait_ended:
  assumes "app_init fw = (e0, Inr ())" and "app_enter fw = (e1, Inr ())"
    and "app_run fw = (e2, Inr ())" and "app_run_forever fw = (e3, Inl x)" and "caught x"
    and "app_exit fw None = (e4, Inr b)"
  shows "main_block fw = (e0 @ e1 @ e2 @ e3 @ e4, Inr ())"
  using assms
  by (simp add: main_block_def with_body_def idle_wait_def then_do_Inr then_do_Inl)

lemma main_block_run_raises:
  assumes "app_init fw = (e0, Inr ())" and "app_enter fw = (e1, Inr ())"
    and "app_run fw = (e2, Inl x)" and "app_exit fw (Some x) = (e4, Inr False)"
  shows "main_block fw = (e0 @ e1 @ e2 @ e4, Inl x)"
  using assms
  by (simp add: main_block_def with_body_def then_do_Inr then_do_Inl)

lemma exit_status_simps:
  "exit_status (ev, Inr u) = Exit 0"
  "exit_status (ev, Inl (SystemExit n)) = Exit n"
  by (simp_all add: exit_status_def)

section \<open>Lemmas about the parser\<close>

lemma parse_unrecognized:
  "find_option tbl t = None \<Longrightarrow>
   parse_args tbl ns (t # ts) = ([], Inl (ArgumentError (''unrecognized arguments: '' @ t)))"
  by simp


lemma parse_store_true:
  "find_option tbl t = Some (flags, d) \<Longrightarrow> action d = ''store_true'' \<Longrightarrow> dest d = Some k \<Longrightarrow>
   parse_args tbl ns (t # ts) = parse_args tbl (AList.update k (PBool True) ns) ts"
  by simp

lemma parse_version:
  "find_option tbl t = Some (flags, d) \<Longrightarrow> action d = ''version'' \<Longrightarrow> version d = Some b \<Longrightarrow>
   parse_args tbl ns (t # ts) = ([Print b], Inl (SystemExit 0))"
  by simp

lemma parse_store_step:
  "find_option tbl t = Some (flags, d) \<Longrightarrow> action d = ''store'' \<Longrightarrow> dest d = Some k \<Longrightarrow>
   parse_args tbl ns (t # x # ts) =
     (if take 1 x = ''-'' then ([], Inl (ArgumentError ''expected one argument''))
      else parse_args tbl (AList.update k (PStr x) ns) ts)"
  by simp

text \<open>How an accepted first argument continues.\<close>

lemma parse_Cons_ok:
  assumes "parse_args tbl ns (t # ts) = (ev, Inr ns')"
  obtains (store) flags d k v ts' where
      "find_option tbl t = Some (flags, d)" "action d = ''store''" "dest d = Some k"
      "ts = v # ts'" "take 1 v \<noteq> ''-''"
      "parse_args tbl (AList.update k (PStr v) ns) ts' = (ev, Inr ns')"
  | (store_true) flags d k where
      "find_option tbl t = Some (flags, d)" "action d = ''store_true''" "dest d = Some k"
      "parse_args tbl (AList.update k (PBool True) ns) ts = (ev, Inr ns')"
proof (cases "find_option tbl t")
  case None
  with assms show ?thesis by simp
next
  case (Some fd)
  obtain flags d where fd: "fd = (flags, d)" by (cases fd)
  show ?thesis
  proof (cases "action d = ''store''")
    case True
    show ?thesis
    proof (cases "dest d")
      case None
      with assms Some fd True show ?thesis by simp
    next
      case k: (Some k)
      show ?thesis
      proof (cases ts)
        case Nil
        with assms Some fd True k show ?thesis by simp
      next
        case (Cons v ts')
        show ?thesis
        proof (cases "take 1 v = ''-''")
          case dash: True
          with assms Some fd True k Cons show ?thesis by simp
        next
          case False
          with assms Some fd True k Cons
          have "parse_args tbl (AList.update k (PStr v) ns) ts' = (ev, Inr ns')" by simp
          with Some fd True k Cons False show ?thesis by (intro store) simp_all
        qed
      qed
    qed
  next
    case ns: False
    show ?thesis
    proof (cases "action d = ''store_true''")
      case True
      show ?thesis
      proof (cases "dest d")
        case None
        with assms Some fd True show ?thesis by simp
      next
        case k: (Some k)
        with assms Some fd True
        have "parse_args tbl (AList.update k (PBool True) ns) ts = (ev, Inr ns')" by simp
        with Some fd True k show ?thesis by (intro store_true) simp_all
      qed
    next
      case False
      with assms Some fd ns show ?thesis by (simp split: option.splits if_splits)
    qed
  qed
qed



lemma parse_Cons_shape:
  obtains (store) k v ts' where "ts = v # ts'"
      "parse_args tbl ns (t # ts) = parse_args tbl (AList.update k (PStr v) ns) ts'"
  | (store_true) k where
      "parse_args tbl ns (t # ts) = parse_args tbl (AList.update k (PBool True) ns) ts"
  | (printed) flags d b where "find_option tbl t = Some (flags, d)" "version d = Some b"
      "parse_args tbl ns (t # ts) = ([Print b], Inl (SystemExit 0))"
  | (raised) x where "parse_args tbl ns (t # ts) = ([], Inl x)"
proof (cases "find_option tbl t")
  case None
  then have "parse_args tbl ns (t # ts) =
      ([], Inl (ArgumentError (''unrecognized arguments: '' @ t)))" by simp
  then show ?thesis by (rule raised)
next
  case (Some fd)
  obtain flags d where fd: "fd = (flags, d)" by (cases fd)
  show ?thesis
  proof (cases "action d = ''store''")
    case True
    show ?thesis
    proof (cases "dest d")
      case None
      with Some fd True
      have "parse_args tbl ns (t # ts) = ([], Inl (ArgumentError ''expected one argument''))"
        by simp
      then show ?thesis by (rule raised)
    next
      case k: (Some k)
      show ?thesis
      proof (cases ts)
        case Nil
        with Some fd True k
        have "parse_args tbl ns (t # ts) = ([], Inl (ArgumentError ''expected one argument''))"
          by simp
        then show ?thesis by (rule raised)
      next
        case (Cons v ts')
        show ?thesis
        proof (cases "take 1 v = ''-''")
          case dash: True
          with Some fd True k Cons
          have "parse_args tbl ns (t # ts) = ([], Inl (ArgumentError ''expected one argument''))"
            by simp
          then show ?thesis by (rule raised)
        next
          case False
          with Some fd True k Cons
          have "parse_args tbl ns (t # ts) = parse_args tbl (AList.update k (PStr v) ns) ts'"
            by simp
          with Cons show ?thesis by (rule store)
        qed
      qed
    qed
  next
    case nst: False
    show ?thesis
    proof (cases "action d = ''store_true''")
      case True
      show ?thesis
      proof (cases "dest d")
        case None
        with Some fd True
        have "parse_args tbl ns (t # ts) = ([], Inl (OtherException ''dest''))" by simp
        then show ?thesis by (rule raised)
      next
        case k: (Some k)
        with Some fd True
        have "parse_args tbl ns (t # ts) = parse_args tbl (AList.update k (PBool True) ns) ts"
          by simp
        then show ?thesis by (rule store_true)
      qed
    next
      case nt: False
      show ?thesis
      proof (cases "action d = ''version''")
        case True
        show ?thesis
        proof (cases "version d")
          case None
          with Some fd True
          have "parse_args tbl ns (t # ts) = ([], Inl (OtherException ''version''))" by simp
          then show ?thesis by (rule raised)
        next
          case b: (Some b)
          with Some fd True
          have "parse_args tbl ns (t # ts) = ([Print b], Inl (SystemExit 0))" by simp
          with Some fd b show ?thesis by (intro printed) simp_all
        qed
      next
        case False
        with Some fd nst nt
        have "parse_args tbl ns (t # ts) = ([], Inl (OtherException ''unknown action''))"
          by simp
        then show ?thesis by (rule raised)
      qed
    qed
  qed
qed

lemma parse_events:
  "e \<in> set (fst (parse_args tbl ns argv)) \<Longrightarrow>
   \<exists>t flags d b. find_option tbl t = Some (flags, d) \<and> version d = Some b \<and> e = Print b"
proof (induction argv arbitrary: ns rule: length_induct)
  case (1 argv)
  show ?case
  proof (cases argv)
    case Nil
    with "1.prems" show ?thesis by simp
  next
    case (Cons t ts)
    show ?thesis
    proof (cases rule: parse_Cons_shape [of ts tbl ns t])
      case (store k v ts')
      from store(1) Cons have "length ts' < length argv" by simp
      moreover from "1.prems" Cons store(2)
      have "e \<in> set (fst (parse_args tbl (AList.update k (PStr v) ns) ts'))" by simp
      ultimately show ?thesis using "1.IH" by blast
    next
      case (store_true k)
      from Cons have "length ts < length argv" by simp
      moreover from "1.prems" Cons store_true
      have "e \<in> set (fst (parse_args tbl (AList.update k (PBool True) ns) ts))" by simp
      ultimately show ?thesis using "1.IH" by blast
    next
      case (printed flags d b)
      from "1.prems" Cons printed(3) have "e = Print b" by simp
      with printed(1,2) show ?thesis by blast
    next
      case (raised x)
      with "1.prems" Cons show ?thesis by simp
    qed
  qed
qed

text \<open>The rows of the controller's table.\<close>

lemma find_option_arguments:
  "find_option (arguments ver copy) t =
     (if t = ''--host'' \<or> t = ''--rainmachine'' then
        Some ([''--host'', ''--rainmachine''],
          \<lparr>action = ''store'', help_text = Some HELP_HOST, dest = Some ''host'',
           version = None, default_value = None\<rparr>)
      else if t = ''-u'' \<or> t = ''--user'' then
        Some ([''-u'', ''--user''],
          \<lparr>action = ''store'', help_text = Some HELP_USER, dest = Some ''user'',
           version = None, default_value = None\<rparr>)
      else if t = ''-p'' \<or> t = ''--password'' then
        Some ([''-p'', ''--password''],
          \<lparr>action = ''store'', help_text = Some HELP_PASS, dest = Some ''pass'',
           version = None, default_value = None\<rparr>)
      else if t = ''-b'' \<or> t = ''--backup'' then
        Some ([''-b'', ''--backup''],
          \<lparr>action = ''store_true'', help_text = Some HELP_BACKUP, dest = Some ''backup'',
           version = None, default_value = None\<rparr>)
      else if t = ''-r'' \<or> t = ''--restore'' then
        Some ([''-r'', ''--restore''],
          \<lparr>action = ''store_true'', help_text = Some HELP_RESTORE, dest = Some ''restore'',
           version = None, default_value = None\<rparr>)
      else if t = ''-f'' \<or> t = ''--file'' then
        Some ([''-f'', ''--file''],
          \<lparr>action = ''store'', help_text = Some HELP_FILE, dest = Some ''file'',
           version = None, default_value = None\<rparr>)
      else if t = ''-v'' \<or> t = ''--version'' then
        Some ([''-v'', ''--version''],
          \<lparr>action = ''version'', help_text = None, dest = None,
           version = Some (BANNER ver copy), default_value = None\<rparr>)
      else None)"
  by (simp add: find_option_def arguments_def)

lemma find_option_dest:
  "map_option (\<lambda>fd. dest (snd fd)) (find_option (arguments ver copy) t) =
     (if t = ''--host'' \<or> t = ''--rainmachine'' then Some (Some ''host'')
      else if t = ''-u'' \<or> t = ''--user'' then Some (Some ''user'')
      else if t = ''-p'' \<or> t = ''--password'' then Some (Some ''pass'')
      else if t = ''-b'' \<or> t = ''--backup'' then Some (Some ''backup'')
      else if t = ''-r'' \<or> t = ''--restore'' then Some (Some ''restore'')
      else if t = ''-f'' \<or> t = ''--file'' then Some (Some ''file'')
      else if t = ''-v'' \<or> t = ''--version'' then Some None
      else None)"
  by (simp add: find_option_def arguments_def)

lemma find_option_recognized:
  "find_option (arguments ver copy) t \<noteq> None \<longleftrightarrow>
     t \<in> {''--host'', ''--rainmachine'', ''-u'', ''--user'', ''-p'', ''--password'',
          ''-b'', ''--backup'', ''-r'', ''--restore'', ''-f'', ''--file'', ''-v'', ''--version''}"
  by (simp add: find_option_arguments)

lemma find_option_other:
  assumes "t \<notin> {''--host'', ''--rainmachine'', ''-u'', ''--user'', ''-p'', ''--password'',
          ''-b'', ''--backup'', ''-r'', ''--restore'', ''-f'', ''--file'', ''-v'', ''--version''}"
  shows "find_option (arguments ver copy) t = None"
  using assms by (simp add: find_option_arguments)

lemma find_option_version:
  "map_option (\<lambda>fd. version (snd fd)) (find_option (arguments ver copy) t) =
     (if t = ''--host'' \<or> t = ''--rainmachine'' then Some None
      else if t = ''-u'' \<or> t = ''--user'' then Some None
      else if t = ''-p'' \<or> t = ''--password'' then Some None
      else if t = ''-b'' \<or> t = ''--backup'' then Some None
      else if t = ''-r'' \<or> t = ''--restore'' then Some None
      else if t = ''-f'' \<or> t = ''--file'' then Some None
      else if t = ''-v'' \<or> t = ''--version'' then Some (Some (BANNER ver copy))
      else None)"
  by (simp add: find_option_arguments)

lemma version_text_is_BANNER:
  assumes "find_option (arguments ver copy) t = Some (flags, d)" and "version d = Some b"
  shows "b = BANNER ver copy"
proof -
  from assms have "map_option (\<lambda>fd. version (snd fd)) (find_option (arguments ver copy) t)
      = Some (Some b)" by simp
  then show ?thesis unfolding find_option_version by (simp split: if_splits)
qed

lemma find_host:
  assumes "t = ''--host'' \<or> t = ''--rainmachine''"
  shows "find_option (arguments ver copy) t =
     Some ([''--host'', ''--rainmachine''],
          \<lparr>action = ''store'', help_text = Some HELP_HOST, dest = Some ''host'',
           version = None, default_value = None\<rparr>)"
  using assms by (elim disjE) (simp_all add: find_option_arguments)

lemma find_user:
  assumes "t = ''-u'' \<or> t = ''--user''"
  shows "find_option (arguments ver copy) t =
     Some ([''-u'', ''--user''],
          \<lparr>action = ''store'', help_text = Some HELP_USER, dest = Some ''user'',
           version = None, default_value = None\<rparr>)"
  using assms by (elim disjE) (simp_all add: find_option_arguments)

lemma find_password:
  assumes "t = ''-p'' \<or> t = ''--password''"
  shows "find_option (arguments ver copy) t =
     Some ([''-p'', ''--password''],
          \<lparr>action = ''store'', help_text = Some HELP_PASS, dest = Some ''pass'',
           version = None, default_value = None\<rparr>)"
  using assms by (elim disjE) (simp_all add: find_option_arguments)

lemma find_backup:
  assumes "t = ''-b'' \<or> t = ''--backup''"
  shows "find_option (arguments ver copy) t =
     Some ([''-b'', ''--backup''],
          \<lparr>action = ''store_true'', help_text = Some HELP_BACKUP, dest = Some ''backup'',
           version = None, default_value = None\<rparr>)"
  using assms by (elim disjE) (simp_all add: find_option_arguments)

lemma find_restore:
  assumes "t = ''-r'' \<or> t = ''--restore''"
  shows "find_option (arguments ver copy) t =
     Some ([''-r'', ''--restore''],
          \<lparr>action = ''store_true'', help_text = Some HELP_RESTORE, dest = Some ''restore'',
           version = None, default_value = None\<rparr>)"
  using assms by (elim disjE) (simp_all add: find_option_arguments)

lemma find_file:
  assumes "t = ''-f'' \<or> t = ''--file''"
  shows "find_option (arguments ver copy) t =
     Some ([''-f'', ''--file''],
          \<lparr>action = ''store'', help_text = Some HELP_FILE, dest = Some ''file'',
           version = None, default_value = None\<rparr>)"
  using assms by (elim disjE) (simp_all add: find_option_arguments)

lemma find_version:
  assumes "t = ''-v'' \<or> t = ''--version''"
  shows "find_option (arguments ver copy) t =
     Some ([''-v'', ''--version''],
          \<lparr>action = ''version'', help_text = None, dest = None,
           version = Some (BANNER ver copy), default_value = None\<rparr>)"
  using assms by (elim disjE) (simp_all add: find_option_arguments)

lemma parse_host:
  assumes "t = ''--host'' \<or> t = ''--rainmachine''"
  shows "parse_args (arguments ver copy) ns (t # x # ts) =
     (if take 1 x = ''-'' then ([], Inl (ArgumentError ''expected one argument''))
      else parse_args (arguments ver copy) (AList.update ''host'' (PStr x) ns) ts)"
  by (rule parse_store_step [OF find_host [OF assms]]) simp_all

lemma parse_user:
  assumes "t = ''-u'' \<or> t = ''--user''"
  shows "parse_args (arguments ver copy) ns (t # x # ts) =
     (if take 1 x = ''-'' then ([], Inl (ArgumentError ''expected one argument''))
      else parse_args (arguments ver copy) (AList.update ''user'' (PStr x) ns) ts)"
  by (rule parse_store_step [OF find_user [OF assms]]) simp_all

lemma parse_password:
  assumes "t = ''-p'' \<or> t = ''--password''"
  shows "parse_args (arguments ver copy) ns (t # x # ts) =
     (if take 1 x = ''-'' then ([], Inl (ArgumentError ''expected one argument''))
      else parse_args (arguments ver copy) (AList.update ''pass'' (PStr x) ns) ts)"
  by (rule parse_store_step [OF find_password [OF assms]]) simp_all

lemma parse_backup:
  assumes "t = ''-b'' \<or> t = ''--backup''"
  shows "parse_args (arguments ver copy) ns (t # ts) =
     parse_args (arguments ver copy) (AList.update ''backup'' (PBool True) ns) ts"
  by (rule parse_store_true [OF find_backup [OF assms]]) simp_all

lemma parse_restore:
  assumes "t = ''-r'' \<or> t = ''--restore''"
  shows "parse_args (arguments ver copy) ns (t # ts) =
     parse_args (arguments ver copy) (AList.update ''restore'' (PBool True) ns) ts"
  by (rule parse_store_true [OF find_restore [OF assms]]) simp_all

lemma parse_file:
  assumes "t = ''-f'' \<or> t = ''--file''"
  shows "parse_args (arguments ver copy) ns (t # x # ts) =
     (if take 1 x = ''-'' then ([], Inl (ArgumentError ''expected one argument''))
      else parse_args (arguments ver copy) (AList.update ''file'' (PStr x) ns) ts)"
  by (rule parse_store_step [OF find_file [OF assms]]) simp_all

lemma parse_version_flag:
  assumes "t = ''-v'' \<or> t = ''--version''"
  shows "parse_args (arguments ver copy) ns (t # ts) =
     ([Print (BANNER ver copy)], Inl (SystemExit 0))"
  by (rule parse_version [OF find_version [OF assms]]) simp_all

lemma parse_other:
  assumes "t \<notin> {''--host'', ''--rainmachine'', ''-u'', ''--user'', ''-p'', ''--password'',
          ''-b'', ''--backup'', ''-r'', ''--restore'', ''-f'', ''--file'', ''-v'', ''--version''}"
  shows "parse_args (arguments ver copy) ns (t # ts) =
     ([], Inl (ArgumentError (''unrecognized arguments: '' @ t)))"
  by (rule parse_unrecognized) (rule find_option_other [OF assms])

lemma find_option_file:
  assumes "find_option (arguments ver copy) t = Some (flags, d)" and "dest d = Some ''file''"
  shows "t = ''-f'' \<or> t = ''--file''"
proof -
  from assms have "map_option (\<lambda>fd. dest (snd fd)) (find_option (arguments ver copy) t)
      = Some (Some ''file'')" by simp
  then show ?thesis unfolding find_option_dest by (simp split: if_splits)
qed

lemma not_file_dest:
  assumes "find_option (arguments ver copy) t = Some (flags, d)" and "dest d = Some k"
    and "t \<noteq> ''-f''" and "t \<noteq> ''--file''"
  shows "k \<noteq> ''file''"
proof
  assume "k = ''file''"
  with assms(2) have "dest d = Some ''file''" by simp
  with assms(1) have "t = ''-f'' \<or> t = ''--file''" by (rule find_option_file)
  with assms(3,4) show False by simp
qed

lemma parse_keeps_file:
  "parse_args (arguments ver copy) ns argv = (ev, Inr ns') \<Longrightarrow>
   ''-f'' \<notin> set argv \<Longrightarrow> ''--file'' \<notin> set argv \<Longrightarrow>
   map_of ns' ''file'' = map_of ns ''file''"
proof (induction argv arbitrary: ns rule: length_induct)
  case (1 argv)
  show ?case
  proof (cases argv)
    case Nil
    with "1.prems" show ?thesis by simp
  next
    case (Cons t ts)
    from "1.prems"(1) Cons
    have p: "parse_args (arguments ver copy) ns (t # ts) = (ev, Inr ns')" by simp
    from "1.prems"(2,3) Cons have t: "t \<noteq> ''-f''" "t \<noteq> ''--file''"
      and ts: "''-f'' \<notin> set ts" "''--file'' \<notin> set ts" by auto
    from p show ?thesis
    proof (cases rule: parse_Cons_ok)
      case (store flags d k v ts')
      have k: "k \<noteq> ''file''" using store(1,3) t by (rule not_file_dest)
      from store(4) Cons have len: "length ts' < length argv" by simp
      from ts store(4) have ts': "''-f'' \<notin> set ts'" "''--file'' \<notin> set ts'" by auto
      from "1.IH" len have
        "\<And>ns. parse_args (arguments ver copy) ns ts' = (ev, Inr ns') \<Longrightarrow>
           ''-f'' \<notin> set ts' \<Longrightarrow> ''--file'' \<notin> set ts' \<Longrightarrow>
           map_of ns' ''file'' = map_of ns ''file''" by blast
      from this [OF store(6) ts']
      have "map_of ns' ''file'' = map_of (AList.update k (PStr v) ns) ''file''" .
      with k show ?thesis by (simp add: update_conv')
    next
      case (store_true flags d k)
      have k: "k \<noteq> ''file''" using store_true(1,3) t by (rule not_file_dest)
      from Cons have len: "length ts < length argv" by simp
      from "1.IH" len have
        "\<And>ns. parse_args (arguments ver copy) ns ts = (ev, Inr ns') \<Longrightarrow>
           ''-f'' \<notin> set ts \<Longrightarrow> ''--file'' \<notin> set ts \<Longrightarrow>
           map_of ns' ''file'' = map_of ns ''file''" by blast
      from this [OF store_true(4) ts]
      have "map_of ns' ''file'' = map_of (AList.update k (PBool True) ns) ''file''" .
      with k show ?thesis by (simp add: update_conv')
    qed
  qed
qed

lemma initial_namespace_arguments:
  "initial_namespace (arguments ver copy) =
     [(''host'', PNone), (''user'', PNone), (''pass'', PNone),
      (''backup'', PBool False), (''restore'', PBool False), (''file'', PNone)]"
  by (simp add: initial_namespace_def arguments_def default_of_def)


section \<open>Lemmas about the merge and the run\<close>

lemma map_of_override_keys:
  "map_of (map (override_key ns) opts) k =
     map_option (\<lambda>v. snd (override_key ns (k, v))) (map_of opts k)"
  by (induction opts) (auto simp: override_key_def split: option.splits)

lemma map_of_override_config:
  "map_of (override_config cfg ns) s = map_option (map (override_key ns)) (map_of cfg s)"
  by (induction cfg) (auto simp: override_config_def)

lemma override_config_read:
  assumes "map_of cfg s = Some opts" and "map_of opts k = Some v_file"
    and "map_of ns k = Some v_cmd" and "v_cmd \<noteq> PNone"
  shows "ConfigParserConfigHandler_get (override_config cfg ns) (s, k) = ([], Inr v_cmd)"
  using assms
  by (simp add: ConfigParserConfigHandler_get_def map_of_override_config map_of_override_keys
      override_key_def)

lemma override_config_sections: "map fst (override_config cfg ns) = map fst cfg"
  by (induction cfg) (auto simp: override_config_def)

lemma override_key_fst: "fst (override_key ns kv) = fst kv"
  by (simp add: override_key_def split: option.splits)

lemma override_config_keys:
  "map_option (map fst) (map_of (override_config cfg ns) s) = map_option (map fst) (map_of cfg s)"
proof (cases "map_of cfg s")
  case None
  then show ?thesis by (simp add: map_of_override_config)
next
  case (Some opts)
  have "map fst (map (override_key ns) opts) = map fst opts"
    by (induction opts) (simp_all add: override_key_fst)
  with Some show ?thesis by (simp add: map_of_override_config)
qed

lemma override_other_key:
  assumes "k \<noteq> d"
  shows "ConfigParserConfigHandler_get (override_config cfg (AList.update d v ns)) (s, k)
       = ConfigParserConfigHandler_get (override_config cfg ns) (s, k)"
proof -
  from assms have "map_of (AList.update d v ns) k = map_of ns k"
    by (simp add: update_conv')
  then have "\<And>w. override_key (AList.update d v ns) (k, w) = override_key ns (k, w)"
    by (simp add: override_key_def)
  then show ?thesis
    by (simp add: ConfigParserConfigHandler_get_def map_of_override_config
        map_of_override_keys split: option.splits)
qed

lemma run_app_parsed:
  assumes "parse_args tbl (initial_namespace tbl) argv = (ev, Inr ns)"
  shows "run_app meta tbl cfg argv =
     (ev, Inr (if arguments_override_config meta then override_config cfg ns else cfg))"
  using assms by (simp add: run_app_def then_do_Inr)


lemma run_app_events:
  "fst (run_app meta tbl cfg argv) = fst (parse_args tbl (initial_namespace tbl) argv)"
proof (cases "parse_args tbl (initial_namespace tbl) argv")
  case (Pair ev r)
  then show ?thesis by (cases r) (simp_all add: run_app_def then_do_Inl then_do_Inr)
qed

lemma run_app_prints_only_BANNER:
  assumes "e \<in> set (fst (run_app meta (arguments ver copy) cfg argv))"
  shows "e = Print (BANNER ver copy)"
proof -
  from assms
  have "e \<in> set (fst (parse_args (arguments ver copy)
                   (initial_namespace (arguments ver copy)) argv))"
    by (simp add: run_app_events)
  then obtain t flags d b where f: "find_option (arguments ver copy) t = Some (flags, d)"
      and v: "version d = Some b" and e: "e = Print b"
    using parse_events by blast
  from f v have "b = BANNER ver copy" by (rule version_text_is_BANNER)
  with e show ?thesis by simp
qed

section \<open>Missing configuration keys\<close>

text \<open>
  Claim C1, at a read of the key \<open>host\<close>, which section \<open>rainmachine\<close> does not
  have, in an application whose \<open>close\<close> returns. \<open>get\<close> logs the fatal line,
  which names the key, and calls \<open>close(1)\<close>; when that returns, \<open>get\<close> falls
  off its end and hands \<open>None\<close> to its caller. The run goes on, and the process
  ends with exit status 0 where the claim has it end with exit status 1.
\<close>

theorem missing_key_read_returns_None:
  "missing_host_read () = ([], Inl (NoOptionError ''host'' ''rainmachine''))
   \<and> returning_close 1 = ([], Inr ())
   \<and> exc_str (NoOptionError ''host'' ''rainmachine'') =
       ''No option '' @ [CHR 0x27] @ ''host'' @ [CHR 0x27] @ '' in section: ''
         @ [CHR 0x27] @ ''rainmachine'' @ [CHR 0x27]
   \<and> get missing_host_read returning_close () =
       ([Log FATAL (''Missing configuration setting: ''
                      @ exc_str (NoOptionError ''host'' ''rainmachine''))],
        Inr PNone)
   \<and> main_block missing_key_close_returns =
       ([Log DEBUG ''running setup()'',
         Log FATAL (''Missing configuration setting: ''
                      @ exc_str (NoOptionError ''host'' ''rainmachine''))],
        Inr ())
   \<and> exit_status (main_block missing_key_close_returns) = Exit 0"
proof (intro conjI)
  show "missing_host_read () = ([], Inl (NoOptionError ''host'' ''rainmachine''))"
    by (simp add: missing_host_read_def)
  show "returning_close 1 = ([], Inr ())"
    by (simp add: returning_close_def)
  show "exc_str (NoOptionError ''host'' ''rainmachine'') =
       ''No option '' @ [CHR 0x27] @ ''host'' @ [CHR 0x27] @ '' in section: ''
         @ [CHR 0x27] @ ''rainmachine'' @ [CHR 0x27]"
    by (simp add: repr_def quote_of_def repr_char_def)
  show g: "get missing_host_read returning_close () =
       ([Log FATAL (''Missing configuration setting: ''
                      @ exc_str (NoOptionError ''host'' ''rainmachine''))],
        Inr PNone)"
    by (simp add: get_def missing_host_read_def returning_close_def then_do_def)
  show m: "main_block missing_key_close_returns =
       ([Log DEBUG ''running setup()'',
         Log FATAL (''Missing configuration setting: ''
                      @ exc_str (NoOptionError ''host'' ''rainmachine''))],
        Inr ())"
    by (simp add: main_block_def with_body_def idle_wait_def missing_key_close_returns_def
        RainMachineApp_setup_def g plain_exit_def done_unit_def then_do_def)
  show "exit_status (main_block missing_key_close_returns) = Exit 0"
    by (simp add: m exit_status_simps)
qed

section \<open>Command line and configuration file\<close>

text \<open>
  Claim C2. The application sets \<open>arguments_override_config\<close>. When a key of the
  configuration has a value from the file and the command line gave a value under the
  same name, the run merges the parsed arguments into the configuration, and a read of
  that key through the handler returns the command-line value.
\<close>

theorem command_line_overrides_config:
  assumes "map_of cfg s = Some opts" and "map_of opts k = Some v_file"
    and "parse_args (arguments ver copy) (initial_namespace (arguments ver copy)) argv
           = ([], Inr ns)"
    and "map_of ns k = Some v_cmd" and "v_cmd \<noteq> PNone"
  shows "arguments_override_config RainMachineApp_Meta
       \<and> run_app RainMachineApp_Meta (arguments ver copy) cfg argv
           = ([], Inr (override_config cfg ns))
       \<and> get (ConfigParserConfigHandler_get (override_config cfg ns)) close (s, k)
           = ([], Inr v_cmd)"
proof (intro conjI)
  show f: "arguments_override_config RainMachineApp_Meta"
    by (simp add: RainMachineApp_Meta_def)
  show "run_app RainMachineApp_Meta (arguments ver copy) cfg argv
           = ([], Inr (override_config cfg ns))"
    using run_app_parsed [OF assms(3)] f by simp
  have "ConfigParserConfigHandler_get (override_config cfg ns) (s, k) = ([], Inr v_cmd)"
    using assms(1,2,4,5) by (rule override_config_read)
  then show "get (ConfigParserConfigHandler_get (override_config cfg ns)) close (s, k)
           = ([], Inr v_cmd)"
    by (rule get_returns)
qed

text \<open>
  Claim C2 at a configuration file that names a host and a command line that names
  another.
\<close>

theorem command_line_overrides_config_witness:
  "map_of example_config ''rainmachine''
     = Some [(''tbd'', PBool False), (''host'', PStr ''192.168.1.20''), (''user'', PStr ''admin'')]
   \<and> parse_args (arguments ''0.1'' ''c'') (initial_namespace (arguments ''0.1'' ''c''))
        [''--host'', ''garden'']
      = ([], Inr [(''host'', PStr ''garden''), (''user'', PNone), (''pass'', PNone),
                  (''backup'', PBool False), (''restore'', PBool False), (''file'', PNone)])
   \<and> get (ConfigParserConfigHandler_get example_config) exiting_close (''rainmachine'', ''host'')
      = ([], Inr (PStr ''192.168.1.20''))
   \<and> run_app RainMachineApp_Meta (arguments ''0.1'' ''c'') example_config [''--host'', ''garden'']
      = ([], Inr [(''rainmachine'',
           [(''tbd'', PBool False), (''host'', PStr ''garden''), (''user'', PStr ''admin'')])])
   \<and> get (ConfigParserConfigHandler_get
          [(''rainmachine'',
             [(''tbd'', PBool False), (''host'', PStr ''garden''), (''user'', PStr ''admin'')])])
        exiting_close (''rainmachine'', ''host'')
      = ([], Inr (PStr ''garden''))"
  using command_line_overrides_config [where cfg = example_config and s = "''rainmachine''"
      and opts = "[(''tbd'', PBool False), (''host'', PStr ''192.168.1.20''),
                   (''user'', PStr ''admin'')]"
      and k = "''host''" and v_file = "PStr ''192.168.1.20''" and ver = "''0.1''"
      and copy = "''c''" and argv = "[''--host'', ''garden'']"
      and ns = "[(''host'', PStr ''garden''), (''user'', PNone), (''pass'', PNone),
                  (''backup'', PBool False), (''restore'', PBool False), (''file'', PNone)]"
      and v_cmd = "PStr ''garden''" and close = exiting_close]
  by (simp add: example_config_def initial_namespace_arguments find_option_arguments
      override_config_def override_key_def ConfigParserConfigHandler_get_def get_def)

section \<open>The options\<close>




text \<open>
  Claim C4. The option strings of the controller's table are exactly \<open>--host\<close>,
  \<open>--rainmachine\<close>, \<open>-u\<close>, \<open>--user\<close>, \<open>-p\<close>, \<open>--password\<close>, \<open>-b\<close>,
  \<open>--backup\<close>, \<open>-r\<close>, \<open>--restore\<close>, \<open>-f\<close>, \<open>--file\<close>, \<open>-v\<close> and
  \<open>--version\<close>. The first three pairs and \<open>-f\<close>/\<open>--file\<close> store the string that
  follows them under \<open>host\<close>, \<open>user\<close>, \<open>pass\<close> and \<open>file\<close>;
  \<open>-b\<close>/\<open>--backup\<close> and \<open>-r\<close>/\<open>--restore\<close> store \<open>True\<close> under
  \<open>backup\<close> and \<open>restore\<close>; \<open>-v\<close>/\<open>--version\<close> prints the banner and exits;
  any other argument is refused.
\<close>

theorem arguments_are_exactly_the_flag_set:
  "(find_option (arguments ver copy) t \<noteq> None \<longleftrightarrow>
      t \<in> {''--host'', ''--rainmachine'', ''-u'', ''--user'', ''-p'', ''--password'',
           ''-b'', ''--backup'', ''-r'', ''--restore'', ''-f'', ''--file'', ''-v'', ''--version''})
   \<and> (t = ''--host'' \<or> t = ''--rainmachine'' \<longrightarrow>
        parse_args (arguments ver copy) ns (t # x # ts) =
          (if take 1 x = ''-'' then ([], Inl (ArgumentError ''expected one argument''))
           else parse_args (arguments ver copy) (AList.update ''host'' (PStr x) ns) ts))
   \<and> (t = ''-u'' \<or> t = ''--user'' \<longrightarrow>
        parse_args (arguments ver copy) ns (t # x # ts) =
          (if take 1 x = ''-'' then ([], Inl (ArgumentError ''expected one argument''))
           else parse_args (arguments ver copy) (AList.update ''user'' (PStr x) ns) ts))
   \<and> (t = ''-p'' \<or> t = ''--password'' \<longrightarrow>
        parse_args (arguments ver copy) ns (t # x # ts) =
          (if take 1 x = ''-'' then ([], Inl (ArgumentError ''expected one argument''))
           else parse_args (arguments ver copy) (AList.update ''pass'' (PStr x) ns) ts))
   \<and> (t = ''-b'' \<or> t = ''--backup'' \<longrightarrow>
        parse_args (arguments ver copy) ns (t # ts) =
          parse_args (arguments ver copy) (AList.update ''backup'' (PBool True) ns) ts)
   \<and> (t = ''-r'' \<or> t = ''--restore'' \<longrightarrow>
        parse_args (arguments ver copy) ns (t # ts) =
          parse_args (arguments ver copy) (AList.update ''restore'' (PBool True) ns) ts)
   \<and> (t = ''-f'' \<or> t = ''--file'' \<longrightarrow>
        parse_args (arguments ver copy) ns (t # x # ts) =
          (if take 1 x = ''-'' then ([], Inl (ArgumentError ''expected one argument''))
           else parse_args (arguments ver copy) (AList.update ''file'' (PStr x) ns) ts))
   \<and> (t = ''-v'' \<or> t = ''--version'' \<longrightarrow>
        parse_args (arguments ver copy) ns (t # ts) =
          ([Print (BANNER ver copy)], Inl (SystemExit 0)))
   \<and> (t \<notin> {''--host'', ''--rainmachine'', ''-u'', ''--user'', ''-p'', ''--password'',
           ''-b'', ''--backup'', ''-r'', ''--restore'', ''-f'', ''--file'', ''-v'', ''--version''}
        \<longrightarrow> parse_args (arguments ver copy) ns (t # ts) =
              ([], Inl (ArgumentError (''unrecognized arguments: '' @ t))))"
proof (intro conjI impI)
  show "find_option (arguments ver copy) t \<noteq> None \<longleftrightarrow>
      t \<in> {''--host'', ''--rainmachine'', ''-u'', ''--user'', ''-p'', ''--password'',
           ''-b'', ''--backup'', ''-r'', ''--restore'', ''-f'', ''--file'', ''-v'', ''--version''}"
    by (rule find_option_recognized)
next
  assume "t = ''--host'' \<or> t = ''--rainmachine''"
  then show "parse_args (arguments ver copy) ns (t # x # ts) =
          (if take 1 x = ''-'' then ([], Inl (ArgumentError ''expected one argument''))
           else parse_args (arguments ver copy) (AList.update ''host'' (PStr x) ns) ts)"
    by (rule parse_host)
next
  assume "t = ''-u'' \<or> t = ''--user''"
  then show "parse_args (arguments ver copy) ns (t # x # ts) =
          (if take 1 x = ''-'' then ([], Inl (ArgumentError ''expected one argument''))
           else parse_args (arguments ver copy) (AList.update ''user'' (PStr x) ns) ts)"
    by (rule parse_user)
next
  assume "t = ''-p'' \<or> t = ''--password''"
  then show "parse_args (arguments ver copy) ns (t # x # ts) =
          (if take 1 x = ''-'' then ([], Inl (ArgumentError ''expected one argument''))
           else parse_args (arguments ver copy) (AList.update ''pass'' (PStr x) ns) ts)"
    by (rule parse_password)
next
  assume "t = ''-b'' \<or> t = ''--backup''"
  then show "parse_args (arguments ver copy) ns (t # ts) =
          parse_args (arguments ver copy) (AList.update ''backup'' (PBool True) ns) ts"
    by (rule parse_backup)
next
  assume "t = ''-r'' \<or> t = ''--restore''"
  then show "parse_args (arguments ver copy) ns (t # ts) =
          parse_args (arguments ver copy) (AList.update ''restore'' (PBool True) ns) ts"
    by (rule parse_restore)
next
  assume "t = ''-f'' \<or> t = ''--file''"
  then show "parse_args (arguments ver copy) ns (t # x # ts) =
          (if take 1 x = ''-'' then ([], Inl (ArgumentError ''expected one argument''))
           else parse_args (arguments ver copy) (AList.update ''file'' (PStr x) ns) ts)"
    by (rule parse_file)
next
  assume "t = ''-v'' \<or> t = ''--version''"
  then show "parse_args (arguments ver copy) ns (t # ts) =
          ([Print (BANNER ver copy)], Inl (SystemExit 0))"
    by (rule parse_version_flag)
next
  assume "t \<notin> {''--host'', ''--rainmachine'', ''-u'', ''--user'', ''-p'', ''--password'',
           ''-b'', ''--backup'', ''-r'', ''--restore'', ''-f'', ''--file'', ''-v'', ''--version''}"
  then show "parse_args (arguments ver copy) ns (t # ts) =
              ([], Inl (ArgumentError (''unrecognized arguments: '' @ t)))"
    by (rule parse_other)
qed

text \<open>Claim C4 at the arguments \<open>-p secret\<close> and \<open>--TBD\<close>.\<close>

theorem arguments_are_exactly_the_flag_set_witness:
  "parse_args (arguments ''0.1'' ''(c) 2015'') [] [''-p'', ''secret'']
     = ([], Inr [(''pass'', PStr ''secret'')])
   \<and> parse_args (arguments ''0.1'' ''(c) 2015'') [] [''--TBD'']
     = ([], Inl (ArgumentError ''unrecognized arguments: --TBD''))"
  using arguments_are_exactly_the_flag_set [where ver = "''0.1''" and copy = "''(c) 2015''"
      and t = "''-p''" and x = "''secret''" and ts = "[]" and ns = "[]"]
    arguments_are_exactly_the_flag_set [where ver = "''0.1''" and copy = "''(c) 2015''"
      and t = "''--TBD''" and x = "''secret''" and ts = "[]" and ns = "[]"]
  by simp

section \<open>The idle wait\<close>

text \<open>
  Claim C5. In a run that reaches the idle wait (the application was created and
  entered, and \<open>app.run()\<close> returned), a \<open>KeyboardInterrupt\<close>, a \<open>SystemExit\<close>
  or a \<open>CaughtSignal\<close> raised in \<open>run_forever\<close> ends the wait without an error:
  the module runs to its end, nothing happens after the wait but the leaving of the
  application context, and the process ends with exit status 0.
\<close>

theorem termination_signal_ends_idle_wait:
  assumes "app_init fw = (e0, Inr ())" and "app_enter fw = (e1, Inr ())"
    and "app_run fw = (e2, Inr ())"
    and "app_run_forever fw = (e3, Inl x)"
    and "x = KeyboardInterrupt \<or> (\<exists>n. x = SystemExit n) \<or> (\<exists>s. x = CaughtSignal s)"
    and "app_exit fw None = (e4, Inr b)"
  shows "idle_wait (app_run_forever fw) = (e3, Inr ())
       \<and> main_block fw = (e0 @ e1 @ e2 @ e3 @ e4, Inr ())
       \<and> exit_status (main_block fw) = Exit 0"
proof -
  from assms(5) have c: "caught x" by (simp add: caught_iff)
  have m: "main_block fw = (e0 @ e1 @ e2 @ e3 @ e4, Inr ())"
    using assms(1-4) c assms(6) by (rule main_block_wait_ended)
  from assms(4) c have "idle_wait (app_run_forever fw) = (e3, Inr ())"
    by (simp add: idle_wait_def)
  with m show ?thesis by (simp add: exit_status_simps)
qed

text \<open>Claim C5 at a run interrupted from the keyboard.\<close>

theorem termination_signal_ends_idle_wait_witness:
  "app_run_forever interrupted_run = ([], Inl KeyboardInterrupt)
   \<and> main_block interrupted_run = ([Log DEBUG ''running setup()''], Inr ())
   \<and> exit_status (main_block interrupted_run) = Exit 0"
  using termination_signal_ends_idle_wait [where fw = interrupted_run and ?e0.0 = "[]"
      and ?e1.0 = "[Log DEBUG ''running setup()'']" and ?e2.0 = "[]" and ?e3.0 = "[]"
      and x = KeyboardInterrupt and ?e4.0 = "[]" and b = False]
  by (simp add: interrupted_run_def RainMachineApp_setup_def plain_exit_def then_do_Inr
      exit_status_simps)

section \<open>Backup and restore\<close>

text \<open>
  Claim C6, as amended. Reading \<open>-b\<close>/\<open>--backup\<close> or \<open>-r\<close>/\<open>--restore\<close>
  does one thing: the parse goes on as it would without the flag, from the parsed
  values with \<open>backup\<close> (or \<open>restore\<close>) set to \<open>True\<close>, and the run is that
  parse followed by the merge into the configuration. The merge of the flag's value
  leaves every key of another name as it is and adds or removes no section and no key:
  only a configuration key named like the flag can take the parsed value. A run emits
  nothing but the print of the banner: no request to the controller, no file read or
  written, no other output.
\<close>

theorem backup_restore_flags_only_set_values:
  assumes "(t = ''-b'' \<or> t = ''--backup'') \<and> d = ''backup''
         \<or> (t = ''-r'' \<or> t = ''--restore'') \<and> d = ''restore''"
  shows "parse_args (arguments ver copy) ns (t # ts) =
           parse_args (arguments ver copy) (AList.update d (PBool True) ns) ts
       \<and> run_app meta (arguments ver copy) cfg (t # ts) =
           then_do (parse_args (arguments ver copy)
                      (AList.update d (PBool True) (initial_namespace (arguments ver copy))) ts)
             (\<lambda>ns'. ([], Inr (if arguments_override_config meta then override_config cfg ns'
                                else cfg)))
       \<and> (k \<noteq> d \<longrightarrow>
            ConfigParserConfigHandler_get
              (override_config cfg (AList.update d (PBool True) ns)) (s, k)
            = ConfigParserConfigHandler_get (override_config cfg ns) (s, k))
       \<and> map fst (override_config cfg ns) = map fst cfg
       \<and> map_option (map fst) (map_of (override_config cfg ns) s)
           = map_option (map fst) (map_of cfg s)
       \<and> (e \<in> set (fst (run_app meta (arguments ver copy) cfg argv))
            \<longrightarrow> e = Print (BANNER ver copy))"
proof (intro conjI impI)
  show p: "parse_args (arguments ver copy) ns' (t # ts) =
           parse_args (arguments ver copy) (AList.update d (PBool True) ns') ts" for ns'
  proof -
    from assms consider "(t = ''-b'' \<or> t = ''--backup'') \<and> d = ''backup''"
      | "(t = ''-r'' \<or> t = ''--restore'') \<and> d = ''restore''" by blast
    then show ?thesis
    proof cases
      case 1
      then have f: "t = ''-b'' \<or> t = ''--backup''" and d: "d = ''backup''" by simp_all
      show ?thesis unfolding d using f by (rule parse_backup)
    next
      case 2
      then have f: "t = ''-r'' \<or> t = ''--restore''" and d: "d = ''restore''" by simp_all
      show ?thesis unfolding d using f by (rule parse_restore)
    qed
  qed
  show "run_app meta (arguments ver copy) cfg (t # ts) =
           then_do (parse_args (arguments ver copy)
                      (AList.update d (PBool True) (initial_namespace (arguments ver copy))) ts)
             (\<lambda>ns'. ([], Inr (if arguments_override_config meta then override_config cfg ns'
                                else cfg)))"
    unfolding run_app_def p ..
next
  assume "k \<noteq> d"
  then show "ConfigParserConfigHandler_get
              (override_config cfg (AList.update d (PBool True) ns)) (s, k)
            = ConfigParserConfigHandler_get (override_config cfg ns) (s, k)"
    by (rule override_other_key)
next
  show "map fst (override_config cfg ns) = map fst cfg" by (rule override_config_sections)
next
  show "map_option (map fst) (map_of (override_config cfg ns) s)
           = map_option (map fst) (map_of cfg s)"
    by (rule override_config_keys)
next
  assume "e \<in> set (fst (run_app meta (arguments ver copy) cfg argv))"
  then show "e = Print (BANNER ver copy)" by (rule run_app_prints_only_BANNER)
qed

text \<open>
  Claim C6, as amended, at the command lines \<open>-b\<close>, \<open>--restore\<close> and
  \<open>-b -v\<close>.
\<close>

theorem backup_restore_flags_only_set_values_witness:
  "parse_args (arguments ''0.1'' ''(c) 2015'') (initial_namespace (arguments ''0.1'' ''(c) 2015''))
      [''-b'']
     = ([], Inr [(''host'', PNone), (''user'', PNone), (''pass'', PNone),
                 (''backup'', PBool True), (''restore'', PBool False), (''file'', PNone)])
   \<and> run_app RainMachineApp_Meta (arguments ''0.1'' ''(c) 2015'') example_config [''--restore'']
     = ([], Inr example_config)
   \<and> ConfigParserConfigHandler_get
        (override_config config_with_backup_key
           (AList.update ''backup'' (PBool True)
              (initial_namespace (arguments ''0.1'' ''(c) 2015''))))
        (''rainmachine'', ''tbd'')
     = ([], Inr (PBool False))
   \<and> fst (run_app RainMachineApp_Meta (arguments ''0.1'' ''(c) 2015'') example_config
              [''-b'', ''-v'']) = [Print (BANNER ''0.1'' ''(c) 2015'')]"
proof -
  note b = backup_restore_flags_only_set_values [where t = "''-b''" and d = "''backup''"
      and ver = "''0.1''" and copy = "''(c) 2015''" and ts = "[]"
      and ns = "initial_namespace (arguments ''0.1'' ''(c) 2015'')"
      and meta = RainMachineApp_Meta and cfg = config_with_backup_key and k = "''tbd''"
      and s = "''rainmachine''" and argv = "[''-b'', ''-v'']"
      and e = "Print (BANNER ''0.1'' ''(c) 2015'')"]
  note r = backup_restore_flags_only_set_values [where t = "''--restore''"
      and d = "''restore''" and ver = "''0.1''" and copy = "''(c) 2015''" and ts = "[]"
      and ns = "initial_namespace (arguments ''0.1'' ''(c) 2015'')"
      and meta = RainMachineApp_Meta and cfg = example_config and k = "''tbd''"
      and s = "''rainmachine''" and argv = "[''-b'', ''-v'']"
      and e = "Print (BANNER ''0.1'' ''(c) 2015'')"]
  have 1: "parse_args (arguments ''0.1'' ''(c) 2015'')
      (initial_namespace (arguments ''0.1'' ''(c) 2015'')) [''-b'']
     = ([], Inr [(''host'', PNone), (''user'', PNone), (''pass'', PNone),
                 (''backup'', PBool True), (''restore'', PBool False), (''file'', PNone)])"
    using b by (simp add: initial_namespace_arguments)
  have 2: "run_app RainMachineApp_Meta (arguments ''0.1'' ''(c) 2015'') example_config
        [''--restore''] = ([], Inr example_config)"
    using r
    by (simp add: initial_namespace_arguments then_do_Inr RainMachineApp_Meta_def
        override_config_def override_key_def example_config_def)
  have 3: "ConfigParserConfigHandler_get
        (override_config config_with_backup_key
           (AList.update ''backup'' (PBool True)
              (initial_namespace (arguments ''0.1'' ''(c) 2015''))))
        (''rainmachine'', ''tbd'')
     = ([], Inr (PBool False))"
    using b
    by (simp add: initial_namespace_arguments override_config_def override_key_def
        config_with_backup_key_def ConfigParserConfigHandler_get_def)
  have "parse_args (arguments ''0.1'' ''(c) 2015'')
      (initial_namespace (arguments ''0.1'' ''(c) 2015'')) [''-b'', ''-v'']
     = ([Print (BANNER ''0.1'' ''(c) 2015'')], Inl (SystemExit 0))"
    by (simp add: initial_namespace_arguments find_option_arguments)
  then have 4: "fst (run_app RainMachineApp_Meta (arguments ''0.1'' ''(c) 2015'')
      example_config [''-b'', ''-v'']) = [Print (BANNER ''0.1'' ''(c) 2015'')]"
    by (simp add: run_app_events)
  from 1 2 3 4 show ?thesis by simp
qed

text \<open>
  Claim C6 as stated fails. With a configuration file that has a key named
  \<open>backup\<close>, passing \<open>-b\<close> changes more than the parsed values: the merge of
  the command line into the configuration gives that key the value \<open>True\<close>, and a
  read of it through the handler returns \<open>True\<close> where the file said \<open>no\<close>.
\<close>

theorem backup_flag_rewrites_configuration_key:
  "get (ConfigParserConfigHandler_get config_with_backup_key) exiting_close
       (''rainmachine'', ''backup'')
     = ([], Inr (PStr ''no''))
   \<and> run_app RainMachineApp_Meta (arguments ''0.1'' ''(c) 2015'') config_with_backup_key [''-b'']
     = ([], Inr [(''rainmachine'', [(''tbd'', PBool False), (''backup'', PBool True)])])
   \<and> get (ConfigParserConfigHandler_get
            [(''rainmachine'', [(''tbd'', PBool False), (''backup'', PBool True)])])
        exiting_close (''rainmachine'', ''backup'')
     = ([], Inr (PBool True))"
proof (intro conjI)
  show "get (ConfigParserConfigHandler_get config_with_backup_key) exiting_close
       (''rainmachine'', ''backup'')
     = ([], Inr (PStr ''no''))"
    by (simp add: get_def ConfigParserConfigHandler_get_def config_with_backup_key_def)
  have p: "parse_args (arguments ''0.1'' ''(c) 2015'')
      (initial_namespace (arguments ''0.1'' ''(c) 2015'')) [''-b'']
     = ([], Inr [(''host'', PNone), (''user'', PNone), (''pass'', PNone),
                 (''backup'', PBool True), (''restore'', PBool False), (''file'', PNone)])"
    by (simp add: initial_namespace_arguments find_option_arguments)
  show "run_app RainMachineApp_Meta (arguments ''0.1'' ''(c) 2015'') config_with_backup_key
       [''-b'']
     = ([], Inr [(''rainmachine'', [(''tbd'', PBool False), (''backup'', PBool True)])])"
    by (simp add: run_app_parsed [OF p] RainMachineApp_Meta_def override_config_def
        override_key_def config_with_backup_key_def)
  show "get (ConfigParserConfigHandler_get
            [(''rainmachine'', [(''tbd'', PBool False), (''backup'', PBool True)])])
        exiting_close (''rainmachine'', ''backup'')
     = ([], Inr (PBool True))"
    by (simp add: get_def ConfigParserConfigHandler_get_def)
qed

section \<open>The defaults\<close>

text \<open>
  Claim C7. The configuration defaults of the application are the value of
  \<open>defaults\<close>, which is built when the module is loaded, from no configuration file
  and no argument: one section \<open>rainmachine\<close> holding one key \<open>tbd\<close> with the
  boolean \<open>False\<close>.
\<close>

theorem defaults_hold_placeholder:
  "defaults = Inr [(''rainmachine'', [(''tbd'', PBool False)])]
   \<and> config_defaults RainMachineApp_Meta = defaults"
  by (simp add: defaults_def init_defaults_def RainMachineApp_Meta_def)

section \<open>The handler's except clause\<close>

text \<open>
  Claim C8. The handler's \<open>except\<close> clause is entered exactly by the configparser
  errors (a missing section, a missing option, any other \<open>configparser.Error\<close>). If
  the inherited read raises one, \<open>get\<close> logs the fatal line and calls \<open>close(1)\<close>,
  whose exception it passes on (and it returns \<open>None\<close> if \<open>close\<close> returns). If
  the read raises any other exception, \<open>get\<close> raises that same exception with nothing
  logged and \<open>close\<close> not called.
\<close>

theorem get_handles_exactly_configparser_errors:
  assumes "super_get args = (ev, Inl e)" and "close 1 = (ev', r)"
  shows "(is_configparser_Error e \<longrightarrow>
            get super_get close args =
              (ev @ [Log FATAL (''Missing configuration setting: '' @ exc_str e)] @ ev',
               case r of Inl x \<Rightarrow> Inl x | Inr u \<Rightarrow> Inr PNone))
       \<and> (\<not> is_configparser_Error e \<longrightarrow> get super_get close args = (ev, Inl e))
       \<and> (get super_get close args = (ev, Inl e) \<longleftrightarrow> \<not> is_configparser_Error e)
       \<and> (is_configparser_Error e \<longleftrightarrow>
            (\<exists>s. e = NoSectionError s) \<or> (\<exists>k s. e = NoOptionError k s)
              \<or> (\<exists>m. e = ConfigparserError m))"
proof (intro conjI impI)
  assume c: "is_configparser_Error e"
  show "get super_get close args =
              (ev @ [Log FATAL (''Missing configuration setting: '' @ exc_str e)] @ ev',
               case r of Inl x \<Rightarrow> Inl x | Inr u \<Rightarrow> Inr PNone)"
    by (rule get_fatal) (rule assms(1) c assms(2))+
next
  assume n: "\<not> is_configparser_Error e"
  show "get super_get close args = (ev, Inl e)"
    by (rule get_propagates) (rule assms(1) n)+
next
  show "get super_get close args = (ev, Inl e) \<longleftrightarrow> \<not> is_configparser_Error e"
  proof (cases "is_configparser_Error e")
    case True
    have "get super_get close args =
              (ev @ [Log FATAL (''Missing configuration setting: '' @ exc_str e)] @ ev',
               case r of Inl x \<Rightarrow> Inl x | Inr u \<Rightarrow> Inr PNone)"
      by (rule get_fatal) (rule assms(1) True assms(2))+
    with True show ?thesis by simp
  next
    case False
    have "get super_get close args = (ev, Inl e)"
      by (rule get_propagates) (rule assms(1) False)+
    with False show ?thesis by simp
  qed
next
  show "is_configparser_Error e \<longleftrightarrow>
            (\<exists>s. e = NoSectionError s) \<or> (\<exists>k s. e = NoOptionError k s)
              \<or> (\<exists>m. e = ConfigparserError m)"
    by (rule is_configparser_Error_iff)
qed

text \<open>Claim C8 at a read that misses a key and at a read that raises a \<open>TypeError\<close>.\<close>

theorem get_handles_exactly_configparser_errors_witness:
  "get missing_host_read exiting_close () =
       ([Log FATAL (''Missing configuration setting: ''
                      @ exc_str (NoOptionError ''host'' ''rainmachine''))],
        Inl (SystemExit 1))
   \<and> get failing_read exiting_close () = ([], Inl (OtherException ''TypeError''))"
  using get_handles_exactly_configparser_errors [where super_get = missing_host_read
      and args = "()" and ev = "[]" and e = "NoOptionError ''host'' ''rainmachine''"
      and close = exiting_close and ev' = "[]" and r = "Inl (SystemExit 1)"]
    get_handles_exactly_configparser_errors [where super_get = failing_read
      and args = "()" and ev = "[]" and e = "OtherException ''TypeError''"
      and close = exiting_close and ev' = "[]" and r = "Inl (SystemExit 1)"]
  by (simp add: missing_host_read_def failing_read_def exiting_close_def)

text \<open>
  Claim C9, as amended. A \<open>SystemExit\<close> raised during the idle wait is caught by the \<open>except\<close>
  clause: the module runs to its end and the process ends with exit status 0, whatever
  status the exception carried. This holds in particular when the configuration
  handler resolves a missing key during the wait and its \<open>close(1)\<close> raises
  \<open>SystemExit\<close>: the fatal line is logged and the \<open>try\<close> statement ends without
  an exception. A \<open>SystemExit\<close> raised in \<open>app.run()\<close>, before the wait, is not
  under the \<open>try\<close>: it leaves the main block, and the process ends with its
  status.
\<close>

theorem SystemExit_in_idle_wait_is_suppressed:
  assumes "app_init fw = (e0, Inr ())" and "app_enter fw = (e1, Inr ())"
  shows "(app_run fw = (e2, Inr ()) \<and> app_run_forever fw = (e3, Inl (SystemExit n))
            \<and> app_exit fw None = (e4, Inr b)
          \<longrightarrow> main_block fw = (e0 @ e1 @ e2 @ e3 @ e4, Inr ())
              \<and> exit_status (main_block fw) = Exit 0)
       \<and> (super_get args = (ev, Inl e) \<and> is_configparser_Error e
            \<and> close 1 = (ev', Inl (SystemExit c))
          \<longrightarrow> idle_wait (then_do (get super_get close args) k) =
                (ev @ [Log FATAL (''Missing configuration setting: '' @ exc_str e)] @ ev',
                 Inr ()))
       \<and> (app_run fw = (e2, Inl (SystemExit n))
            \<and> app_exit fw (Some (SystemExit n)) = (e4, Inr False)
          \<longrightarrow> main_block fw = (e0 @ e1 @ e2 @ e4, Inl (SystemExit n))
              \<and> exit_status (main_block fw) = Exit n)"
proof (intro conjI impI)
  assume h: "app_run fw = (e2, Inr ()) \<and> app_run_forever fw = (e3, Inl (SystemExit n))
            \<and> app_exit fw None = (e4, Inr b)"
  have m: "main_block fw = (e0 @ e1 @ e2 @ e3 @ e4, Inr ())"
    by (rule main_block_wait_ended [where x = "SystemExit n" and b = b]) (use assms h in simp_all)
  then show "main_block fw = (e0 @ e1 @ e2 @ e3 @ e4, Inr ())" .
  from m show "exit_status (main_block fw) = Exit 0" by (simp add: exit_status_simps)
next
  assume h: "super_get args = (ev, Inl e) \<and> is_configparser_Error e
            \<and> close 1 = (ev', Inl (SystemExit c))"
  have "get super_get close args =
      (ev @ [Log FATAL (''Missing configuration setting: '' @ exc_str e)] @ ev',
       case (Inl (SystemExit c) :: exc + unit) of Inl x \<Rightarrow> Inl x | Inr u \<Rightarrow> Inr PNone)"
    by (rule get_fatal) (use h in simp_all)
  then show "idle_wait (then_do (get super_get close args) k) =
                (ev @ [Log FATAL (''Missing configuration setting: '' @ exc_str e)] @ ev',
                 Inr ())"
    by (simp add: then_do_Inl idle_wait_def)
next
  assume h: "app_run fw = (e2, Inl (SystemExit n))
            \<and> app_exit fw (Some (SystemExit n)) = (e4, Inr False)"
  have m: "main_block fw = (e0 @ e1 @ e2 @ e4, Inl (SystemExit n))"
    by (rule main_block_run_raises) (use assms h in simp_all)
  then show "main_block fw = (e0 @ e1 @ e2 @ e4, Inl (SystemExit n))" .
  from m show "exit_status (main_block fw) = Exit n" by (simp add: exit_status_simps)
qed

text \<open>
  Claim C9, as amended, at a \<open>SystemExit(1)\<close> raised during the wait, at a missing key resolved
  during the wait with a \<open>close\<close> that exits, and at a \<open>SystemExit(1)\<close> raised
  in \<open>app.run()\<close>.
\<close>

theorem SystemExit_in_idle_wait_is_suppressed_witness:
  "main_block exit_while_idle = ([Log DEBUG ''running setup()''], Inr ())
   \<and> exit_status (main_block exit_while_idle) = Exit 0
   \<and> idle_wait (then_do (get missing_host_read exiting_close ()) done_unit) =
       ([Log FATAL (''Missing configuration setting: ''
                      @ exc_str (NoOptionError ''host'' ''rainmachine''))],
        Inr ())
   \<and> main_block exit_at_run = ([Log DEBUG ''running setup()''], Inl (SystemExit 1))
   \<and> exit_status (main_block exit_at_run) = Exit 1"
proof -
  have a: "main_block exit_while_idle = ([Log DEBUG ''running setup()''], Inr ())
      \<and> exit_status (main_block exit_while_idle) = Exit 0
      \<and> idle_wait (then_do (get missing_host_read exiting_close ()) done_unit) =
       ([Log FATAL (''Missing configuration setting: ''
                      @ exc_str (NoOptionError ''host'' ''rainmachine''))],
        Inr ())"
    using SystemExit_in_idle_wait_is_suppressed [where fw = exit_while_idle
        and ?e0.0 = "[]" and ?e1.0 = "[Log DEBUG ''running setup()'']" and ?e2.0 = "[]"
        and ?e3.0 = "[]" and n = 1 and ?e4.0 = "[]" and b = False
        and super_get = missing_host_read and args = "()" and ev = "[]"
        and e = "NoOptionError ''host'' ''rainmachine''" and close = exiting_close
        and ev' = "[]" and c = 1 and k = done_unit]
    by (simp add: exit_while_idle_def RainMachineApp_setup_def plain_exit_def then_do_Inr
        missing_host_read_def exiting_close_def exit_status_simps)
  have c: "main_block exit_at_run = ([Log DEBUG ''running setup()''], Inl (SystemExit 1))
      \<and> exit_status (main_block exit_at_run) = Exit 1"
    using SystemExit_in_idle_wait_is_suppressed [where fw = exit_at_run
        and ?e0.0 = "[]" and ?e1.0 = "[Log DEBUG ''running setup()'']" and ?e2.0 = "[]"
        and ?e3.0 = "[]" and n = 1 and ?e4.0 = "[]" and b = False
        and super_get = missing_host_read and args = "()" and ev = "[]"
        and e = "NoOptionError ''host'' ''rainmachine''" and close = exiting_close
        and ev' = "[]" and c = 1 and k = done_unit]
    by (simp add: exit_at_run_def RainMachineApp_setup_def plain_exit_def then_do_Inr
        missing_host_read_def exiting_close_def exit_status_simps)
  from a c show ?thesis by (simp add: exit_status_simps)
qed

text \<open>
  Claim C9 as stated fails where it has exit status 1 for a configuration error raised
  before the idle wait. A missing key resolved in \<open>app.run()\<close>, in an application
  whose \<open>close\<close> returns, raises nothing: the fatal line is logged, the run goes
  on to the wait, and the process ends with exit status 0.
\<close>

theorem missing_key_before_wait_exits_cleanly:
  "app_run missing_key_close_returns
     = then_do (get missing_host_read returning_close ()) done_unit
   \<and> main_block missing_key_close_returns =
       ([Log DEBUG ''running setup()'',
         Log FATAL (''Missing configuration setting: ''
                      @ exc_str (NoOptionError ''host'' ''rainmachine''))],
        Inr ())
   \<and> exit_status (main_block missing_key_close_returns) = Exit 0
   \<and> exit_status (main_block missing_key_close_returns) \<noteq> Exit 1"
proof -
  have m: "main_block missing_key_close_returns =
       ([Log DEBUG ''running setup()'',
         Log FATAL (''Missing configuration setting: ''
                      @ exc_str (NoOptionError ''host'' ''rainmachine''))],
        Inr ())"
    by (simp add: main_block_def with_body_def idle_wait_def missing_key_close_returns_def
        RainMachineApp_setup_def get_def missing_host_read_def returning_close_def
        plain_exit_def done_unit_def then_do_def)
  then show ?thesis
    by (simp add: exit_status_simps) (simp add: missing_key_close_returns_def)
qed

section \<open>The backup file name\<close>

text \<open>
  Claim C10. The declaration of \<open>-f\<close>/\<open>--file\<close> gives no default. When neither
  option string is among the arguments and the parse succeeds, the parsed value of
  \<open>file\<close> is \<open>None\<close>, whatever else was given (a host name included): the default
  that \<open>HELP_FILE\<close> announces is not computed.
\<close>

theorem file_is_None_when_omitted:
  assumes "parse_args (arguments ver copy) (initial_namespace (arguments ver copy)) argv
             = (ev, Inr ns)"
    and "''-f'' \<notin> set argv" and "''--file'' \<notin> set argv"
  shows "map_of ns ''file'' = Some PNone
       \<and> map_option (\<lambda>fd. default_value (snd fd)) (find_option (arguments ver copy) ''-f'')
           = Some None
       \<and> map_option (\<lambda>fd. default_value (snd fd)) (find_option (arguments ver copy) ''--file'')
           = Some None"
proof (intro conjI)
  have "map_of ns ''file'' = map_of (initial_namespace (arguments ver copy)) ''file''"
    using assms by (rule parse_keeps_file)
  then show "map_of ns ''file'' = Some PNone" by (simp add: initial_namespace_arguments)
  show "map_option (\<lambda>fd. default_value (snd fd)) (find_option (arguments ver copy) ''-f'')
           = Some None"
    by (simp add: find_file)
  show "map_option (\<lambda>fd. default_value (snd fd)) (find_option (arguments ver copy) ''--file'')
           = Some None"
    by (simp add: find_file)
qed

text \<open>Claim C10 at the command line \<open>--host garden -b\<close>.\<close>

theorem file_is_None_when_omitted_witness:
  "parse_args (arguments ''0.1'' ''(c) 2015'') (initial_namespace (arguments ''0.1'' ''(c) 2015''))
      [''--host'', ''garden'', ''-b'']
     = ([], Inr [(''host'', PStr ''garden''), (''user'', PNone), (''pass'', PNone),
                 (''backup'', PBool True), (''restore'', PBool False), (''file'', PNone)])
   \<and> ''-f'' \<notin> set [''--host'', ''garden'', ''-b'']
   \<and> ''--file'' \<notin> set [''--host'', ''garden'', ''-b'']
   \<and> map_of [(''host'', PStr ''garden''), (''user'', PNone), (''pass'', PNone),
              (''backup'', PBool True), (''restore'', PBool False), (''file'', PNone)] ''file''
     = Some PNone"
  using file_is_None_when_omitted [where ver = "''0.1''" and copy = "''(c) 2015''"
      and argv = "[''--host'', ''garden'', ''-b'']" and ev = "[]"
      and ns = "[(''host'', PStr ''garden''), (''user'', PNone), (''pass'', PNone),
                 (''backup'', PBool True), (''restore'', PBool False), (''file'', PNone)]"]
  by (simp add: initial_namespace_arguments find_option_arguments)

end
